theory Spec2Isabelle
  imports Main
begin

section \<open>Data model of the user service\<close>

text \<open>
  The service (class \<open>UserService\<close>) works on four Mongoose collections: users, vaults,
  change-primary-data requests and forgot-password requests.  A collection is a list of
  documents in insertion order; \<open>findOne\<close> and \<open>updateOne\<close> act on the first document
  that matches the filter.

  Object ids are natural numbers.  Times are integers (milliseconds, as \<open>Date.now()\<close>
  returns them); one operation reads the clock as one value \<open>now\<close>.  Random draws
  (\<open>v4()\<close>, \<open>crypto.randomBytes(10).toString("hex")\<close>) are arguments of the operation
  that draws them, named as the local constant that receives them.  Where a local constant
  or a parameter of the source has the name of a field (\<open>verification\<close>, \<open>email\<close>), the
  model writes it with a prime.
\<close>

type_synonym objectId = nat

text \<open>
  The user schema is not part of the sources at hand; the fields are the ones the service
  reads and writes.  No operation of the service writes a field \<open>userId\<close> to any
  collection.
\<close>

record user_doc =
  uid :: objectId
  email :: string
  username :: string
  phoneNumber :: string
  password :: string
  isActive :: bool
  isBlocked :: bool
  blockExpires :: int
  loginAttempts :: int
  verification :: string
  verificationExpires :: int
  firstName :: string
  lastName :: string
  birthday :: string
  photo :: string

record vault_doc =
  vault_user :: objectId
  vault_salt :: string

datatype data_type = Email | Password | Username | Phone

text \<open>
  The schema class \<open>ChangePrimaryData\<close>: the owner is the field \<open>user\<close>.  The schema
  gives the path the type \<open>Types.ObjectId\<close> of \<open>mongoose\<close>, the class of the values and not
  the schema type, so the path is not cast: a document holds the owner as the operation
  passed it, an ObjectId where the operation wrote \<open>Types.ObjectId(userId)\<close> and the string
  \<open>userId\<close> where it wrote \<open>userId\<close>.  A filter on an ObjectId does not match the string of
  the same id.
\<close>

datatype owner = ObjectId objectId | IdString objectId

fun ownerId :: "owner \<Rightarrow> objectId" where
  "ownerId (ObjectId i) = i"
| "ownerId (IdString i) = i"

text \<open>
  Every path of the schema is \<open>required\<close>: \<open>save()\<close> refuses a document with an empty
  string under one of its string paths.
\<close>

record change_primary_data =
  cpd_user :: owner
  cpd_verification :: string
  cpd_expires :: int
  cpd_ipOfRequest :: string
  cpd_browserOfRequest :: string
  cpd_fingerprintOfRequest :: string
  cpd_dataType :: data_type
  cpd_verified :: bool

record forgot_password =
  fp_email :: string
  fp_verification :: string
  fp_expires :: int
  fp_ipOfRequest :: string
  fp_browserOfRequest :: string
  fp_fingerprintOfRequest :: string

record db =
  users :: "user_doc list"
  vaults :: "vault_doc list"
  changePrimaryData :: "change_primary_data list"
  forgotPasswords :: "forgot_password list"

subsection \<open>Configuration and collaborators\<close>

record argon2_options =
  hashLength :: nat
  memoryCost :: nat
  timeCost :: nat
  argon2id :: bool

datatype jwt_outcome = JWTThrows | JWTTokens string string

record session_data =
  sess_ip :: string
  sess_userAgent :: string
  sess_fingerprint :: string
  expiresIn :: int
  createdAt :: int

text \<open>
  \<open>process.env\<close> and the libraries the service calls.  The durations are the values of
  \<open>ms(process.env.X)\<close>.  \<open>MAXIMUM_PASSWORD_VALIDATIONS\<close> is the result of
  \<open>Number.parseInt\<close>, \<open>None\<close> for \<open>NaN\<close>.  \<open>argon2_tag\<close> is the derivation of the
  argon2 library: it takes the salt that the library draws for itself when the caller passes
  none, the options and the plain text, and gives the derived bytes.  \<open>argon2_verify\<close>
  takes the stored hash and the plain text.  \<open>generateJWT\<close> is the token service.

  \<open>strictQuery\<close> is the Mongoose setting for filter paths that the schema does not
  declare: when it is set the clause is dropped from the filter, otherwise the clause stays
  and matches the documents that hold the value under this path, of which there are none.
\<close>

record env =
  LOGIN_ATTEMPTS_TO_BLOCK :: int
  HOURS_TO_BLOCK :: int
  HOURS_TO_VERIFY :: int
  JWT_EXPIRATION_TIME :: int
  JWT_EXPIRATION_TIME_LONG :: int
  MAXIMUM_PASSWORD_VALIDATIONS :: "int option"
  strictQuery :: bool
  argon2_tag :: "string \<Rightarrow> argon2_options \<Rightarrow> string \<Rightarrow> string"
  argon2_verify :: "string \<Rightarrow> string \<Rightarrow> bool"
  generateJWT :: "objectId \<Rightarrow> session_data \<Rightarrow> jwt_outcome"

subsection \<open>Results\<close>

datatype error_code =
    EMAIL_ALREADY_EXISTS | USERNAME_ALREADY_EXISTS | TEL_NUM_ALREADY_EXISTS
  | INVALID_PASSWORD | INVALID_USERNAME | INVALID_TEL_NUM | INVALID_EMAIL
  | NOT_ACTIVE
  | OLD_EMAIL_DOES_NOT_MATCH | OLD_USERNAME_DOES_NOT_MATCH
  | OLD_TEL_NUM_DOES_NOT_MATCH | OLD_PASSWORD_DOES_NOT_MATCH

text \<open>
  The three messages sent under the key \<open>USER_HAS_BEEN_BLOCKED\<close>: the plain value of the
  error code, "You are blocked for ...", and the value followed by "You must verify
  previous data change. Check your email.".
\<close>

datatype blocked_message = BlockedValue | BlockedFor | MustVerifyPreviousChange

text \<open>
  An error object \<open>Partial<...Error>\<close> is the list of its keys with their values, in the
  order they were set.
\<close>

type_synonym error_obj = "(string \<times> error_code) list"

datatype rpc_error =
    FieldErrors error_obj
  | USER_HAS_BEEN_BLOCKED blocked_message
  | PASSWORDS_DOES_NOT_MATCH
  | USER_NOT_FOUND
  | INTERNAL_ERROR

datatype http_status = OK | BAD_REQUEST

text \<open>The public view of an account: id, email, username, phone number, names, birthday, photo.\<close>

datatype user_data = UserData objectId string string string string string string string

text \<open>
  What an operation returns.  \<open>Observable\<close> is the result of \<open>client.send\<close>: the command,
  the verification code, the address and the mail type.  \<open>Undefined\<close> is the result of
  the \<open>catch\<close> block when the exception is not an \<open>RpcException\<close>, and of a path that
  ends without \<open>return\<close>.
\<close>

datatype response =
    HttpStatus http_status
  | RpcException rpc_error
  | Observable string string string string
  | UserDataResponse user_data
  | LoginResponse user_data string string
  | Undefined

section \<open>The store\<close>

definition findOne :: "('a \<Rightarrow> bool) \<Rightarrow> 'a list \<Rightarrow> 'a option" where
  "findOne P xs = find P xs"

definition existsDoc :: "('a \<Rightarrow> bool) \<Rightarrow> 'a list \<Rightarrow> bool" where
  "existsDoc P xs = list_ex P xs"

definition countDocuments :: "('a \<Rightarrow> bool) \<Rightarrow> 'a list \<Rightarrow> nat" where
  "countDocuments P xs = length (filter P xs)"

fun updateOne :: "('a \<Rightarrow> bool) \<Rightarrow> ('a \<Rightarrow> 'a) \<Rightarrow> 'a list \<Rightarrow> 'a list" where
  "updateOne P f [] = []"
| "updateOne P f (x # xs) = (if P x then f x # xs else x # updateOne P f xs)"

text \<open>A filter clause \<open>{ userId }\<close>, on a collection whose documents have no such field.\<close>

definition unknownPath :: "env \<Rightarrow> bool" where
  "unknownPath e = strictQuery e"

text \<open>\<open>user.save()\<close>: writes the loaded document back under its \<open>_id\<close>.\<close>

definition save :: "user_doc \<Rightarrow> db \<Rightarrow> db" where
  "save u s = s\<lparr>users := updateOne (\<lambda>x. uid x = uid u) (\<lambda>_. u) (users s)\<rparr>"

definition userData :: "user_doc \<Rightarrow> user_data" where
  "userData u = UserData (uid u) (email u) (username u) (phoneNumber u)
                  (firstName u) (lastName u) (birthday u) (photo u)"

section \<open>Private helpers\<close>

text \<open>\<open>_findById(userId)\<close>.\<close>

definition findById :: "db \<Rightarrow> objectId \<Rightarrow> user_doc option" where
  "findById s userId = findOne (\<lambda>u. uid u = userId) (users s)"

text \<open>\<open>_isEmpty\<close>, on the error objects the operations pass to it.\<close>

definition isEmpty :: "error_obj \<Rightarrow> bool" where
  "isEmpty obj = (obj = [])"

definition isExistingEmail :: "db \<Rightarrow> string \<Rightarrow> bool" where
  "isExistingEmail s e = existsDoc (\<lambda>u. email u = e) (users s)"

definition isExistingUsername :: "db \<Rightarrow> string \<Rightarrow> bool" where
  "isExistingUsername s n = existsDoc (\<lambda>u. username u = n) (users s)"

definition isExistingPhone :: "db \<Rightarrow> string \<Rightarrow> bool" where
  "isExistingPhone s p = existsDoc (\<lambda>u. phoneNumber u = p) (users s)"

definition isExistingPassword :: "db \<Rightarrow> string \<Rightarrow> bool" where
  "isExistingPassword s p = existsDoc (\<lambda>u. password u = p) (users s)"

text \<open>
  \<open>argon2.hash(plain, options)\<close> returns the encoded hash: a string that holds, between
  dollar signs, the salt of the library and the derived bytes, so that
  \<open>argon2.verify(hash, plain)\<close> needs no other argument (line 220).  The encoded hash of
  the library starts with the name of the variant and the costs, which the options of
  \<open>_generatePassword\<close> fix; the model leaves this constant part out.
\<close>

definition argon2_hash :: "env \<Rightarrow> string \<Rightarrow> argon2_options \<Rightarrow> string \<Rightarrow> string" where
  "argon2_hash e nonce opts plain = nonce @ ''$'' @ argon2_tag e nonce opts plain"

text \<open>\<open>_generatePassword(password, salt)\<close>; \<open>nonce\<close> is the library's own salt.\<close>

definition generatePassword :: "env \<Rightarrow> string \<Rightarrow> string \<Rightarrow> string \<Rightarrow> string" where
  "generatePassword e nonce pw salt =
     argon2_hash e nonce
       \<lparr>hashLength = 40, memoryCost = 8192, timeCost = 4, argon2id = True\<rparr> (salt @ pw)"

text \<open>
  \<open>_validatePasswordUniqueness(password)\<close>.  The field \<open>counter\<close> of the service object is
  passed in and returned.  The \<open>k\<close>-th call draws the salt \<open>salts k\<close> and hashes with the
  library salt \<open>nonces k\<close>.  The result is \<open>Some True\<close>, \<open>Some False\<close>, or \<open>None\<close> for
  \<open>undefined\<close>; the function itself returns \<open>None\<close> when the calls never end.
\<close>

partial_function (option) validatePasswordUniqueness ::
  "env \<Rightarrow> db \<Rightarrow> (nat \<Rightarrow> string) \<Rightarrow> (nat \<Rightarrow> string) \<Rightarrow> string \<Rightarrow> nat \<Rightarrow> int
     \<Rightarrow> (bool option \<times> int) option"
where
  "validatePasswordUniqueness e s salts nonces pw k counter =
     (let salt = salts k;
          saltedPassword = generatePassword e (nonces k) pw salt
      in if (case MAXIMUM_PASSWORD_VALIDATIONS e of None \<Rightarrow> False | Some m \<Rightarrow> counter \<le> m)
         then if isExistingPassword s saltedPassword
              then Option.bind
                     (validatePasswordUniqueness e s salts nonces pw (Suc k) counter)
                     (\<lambda>(_, counter'). Some (None, counter'))
              else Some (Some True, 0)
         else Some (Some False, 0))"

declare validatePasswordUniqueness.simps [code]

section \<open>login\<close>

text \<open>
  The login DTO; an absent field and an empty one are both falsy, and are the empty string.
\<close>

record login_dto =
  dto_username :: string
  dto_phoneNumber :: string
  dto_email :: string
  dto_password :: string
  rememberMe :: bool

text \<open>
  The end of \<open>login\<close>, from the call of \<open>generateJWT\<close> on: the attempts are reset
  inside the branch \<open>accessToken && refreshToken\<close>.
\<close>

definition issueTokens :: "env \<Rightarrow> session_data \<Rightarrow> user_doc \<Rightarrow> db \<Rightarrow> response \<times> db" where
  "issueTokens e sessionData user s =
     (case generateJWT e (uid user) sessionData of
        JWTThrows \<Rightarrow> (Undefined, s)
      | JWTTokens accessToken refreshToken \<Rightarrow>
          if accessToken \<noteq> [] \<and> refreshToken \<noteq> [] then
            (let user = user\<lparr>loginAttempts := 0\<rparr>
             in (LoginResponse (userData user) accessToken refreshToken, save user s))
          else (HttpStatus BAD_REQUEST, s))"

text \<open>The lookup at the start of \<open>login\<close>: the account and the error object.\<close>

definition findUser :: "db \<Rightarrow> login_dto \<Rightarrow> user_doc option \<times> error_obj" where
  "findUser s loginUserDto =
     (if dto_username loginUserDto \<noteq> [] then
        (let user = findOne (\<lambda>u. username u = dto_username loginUserDto) (users s)
         in (user, if user = None then [(''username'', INVALID_USERNAME)] else []))
      else if dto_phoneNumber loginUserDto \<noteq> [] then
        (let user = findOne (\<lambda>u. phoneNumber u = dto_phoneNumber loginUserDto) (users s)
         in (user, if user = None then [(''username'', INVALID_TEL_NUM)] else []))
      else if dto_email loginUserDto \<noteq> [] then
        (let user = findOne (\<lambda>u. email u = dto_email loginUserDto) (users s)
         in (user, if user = None then [(''email'', INVALID_EMAIL)] else []))
      else (None, []))"

definition login ::
  "env \<Rightarrow> int \<Rightarrow> db \<Rightarrow> string \<Rightarrow> string \<Rightarrow> string \<Rightarrow> login_dto \<Rightarrow> response \<times> db"
where
  "login e now s ip userAgent fingerprint loginUserDto =
     (let sessionData =
            \<lparr>sess_ip = ip, sess_userAgent = userAgent, sess_fingerprint = fingerprint,
             expiresIn = now + (if rememberMe loginUserDto then JWT_EXPIRATION_TIME_LONG e
                                else JWT_EXPIRATION_TIME e),
             createdAt = now\<rparr>;
          (user, error) = findUser s loginUserDto
      in if \<not> isEmpty error then (RpcException (FieldErrors error), s)
         else case user of
           None \<Rightarrow> (HttpStatus BAD_REQUEST, s)
         | Some user \<Rightarrow>
            (let error = (if \<not> isActive user
                          then error @ [(''internalFailure'', NOT_ACTIVE)] else error)
             in if isActive user \<and> isBlocked user
                then (RpcException (USER_HAS_BEEN_BLOCKED BlockedValue), s)
                else
                  (let (user, s) =
                         (if isActive user \<and> blockExpires user \<noteq> 0 \<and> blockExpires user < now
                          then (let user = user\<lparr>isBlocked := False, blockExpires := 0\<rparr>
                                in (user, save user s))
                          else (user, s))
                   in case findOne (\<lambda>v. vault_user v = uid user) (vaults s) of
                        None \<Rightarrow> (Undefined, s)
                      | Some vault \<Rightarrow>
                         if \<not> argon2_verify e (password user)
                                (vault_salt vault @ dto_password loginUserDto)
                         then
                           (let user = user\<lparr>loginAttempts := loginAttempts user + 1\<rparr>;
                                s = save user s
                            in if loginAttempts user \<ge> LOGIN_ATTEMPTS_TO_BLOCK e
                               then
                                 (let user = user\<lparr>blockExpires := now + HOURS_TO_BLOCK e,
                                                  isBlocked := True, loginAttempts := 0\<rparr>
                                  in (RpcException (USER_HAS_BEEN_BLOCKED BlockedFor),
                                      save user s))
                               else
                                 (let error = error @ [(''password'', INVALID_PASSWORD)]
                                  in if \<not> isEmpty error
                                     then (RpcException (FieldErrors error), s)
                                     else issueTokens e sessionData user s))
                         else if \<not> isEmpty error then (RpcException (FieldErrors error), s)
                         else issueTokens e sessionData user s)))"

section \<open>Changes of primary data\<close>

text \<open>
  The record every change operation saves: \<open>expires\<close> receives
  \<open>ms(process.env.HOURS_TO_VERIFY)\<close>.
\<close>

definition newChangeRequest ::
  "env \<Rightarrow> owner \<Rightarrow> string \<Rightarrow> string \<Rightarrow> string \<Rightarrow> string \<Rightarrow> data_type
     \<Rightarrow> change_primary_data"
where
  "newChangeRequest e user verification' ip userAgent fingerprint dataType =
     \<lparr>cpd_user = user, cpd_verification = verification', cpd_expires = HOURS_TO_VERIFY e,
      cpd_ipOfRequest = ip, cpd_browserOfRequest = userAgent,
      cpd_fingerprintOfRequest = fingerprint, cpd_dataType = dataType,
      cpd_verified = False\<rparr>"

text \<open>
  \<open>changePrimaryDataRequest.save()\<close>: validates the document, then inserts it.  \<open>None\<close>
  is the validation error it throws.
\<close>

definition saveRequest :: "change_primary_data \<Rightarrow> db \<Rightarrow> db option" where
  "saveRequest r s =
     (if cpd_verification r = [] \<or> cpd_ipOfRequest r = [] \<or> cpd_browserOfRequest r = []
         \<or> cpd_fingerprintOfRequest r = []
      then None
      else Some (s\<lparr>changePrimaryData := changePrimaryData s @ [r]\<rparr>))"

definition changeEmail ::
  "env \<Rightarrow> int \<Rightarrow> db \<Rightarrow> objectId \<Rightarrow> string \<Rightarrow> string \<Rightarrow> string \<Rightarrow> string \<Rightarrow> string \<Rightarrow> string
     \<Rightarrow> response \<times> db"
where
  "changeEmail e now s userId oldEmail newEmail ip userAgent fingerprint verification' =
     (let emailMatches = isExistingEmail s oldEmail;
          error = (if \<not> emailMatches then [(''oldEmail'', OLD_EMAIL_DOES_NOT_MATCH)] else []);
          error = (if isExistingEmail s newEmail
                   then error @ [(''newEmail'', EMAIL_ALREADY_EXISTS)] else error)
      in if \<not> isEmpty error then (RpcException (FieldErrors error), s)
         else
           (let userRecord = findOne (\<lambda>u. uid u = userId \<and> isActive u) (users s);
                userChangeRequests =
                  countDocuments (\<lambda>r. cpd_user r = ObjectId userId \<and> cpd_verified r = False)
                    (changePrimaryData s)
            in case userRecord of
                 None \<Rightarrow> (Undefined, s)
               | Some userRecord \<Rightarrow>
                  if isBlocked userRecord \<or> userChangeRequests \<noteq> 0
                  then (RpcException (USER_HAS_BEEN_BLOCKED MustVerifyPreviousChange), s)
                  else
                    (let s = s\<lparr>users :=
                                 updateOne
                                   (\<lambda>u. uid u = userId \<and> email u = oldEmail \<and> isActive u)
                                   (\<lambda>u. u\<lparr>email := newEmail, isBlocked := True,
                                           verificationExpires := now + HOURS_TO_VERIFY e,
                                           blockExpires := now + HOURS_TO_VERIFY e,
                                           verification := verification'\<rparr>)
                                   (users s)\<rparr>;
                         changePrimaryDataRequest =
                           newChangeRequest e (ObjectId userId) verification' ip userAgent
                             fingerprint Email
                     in case saveRequest changePrimaryDataRequest s of
                          None \<Rightarrow> (Undefined, s)
                        | Some s \<Rightarrow>
                           (Observable ''verify'' verification' newEmail ''VERIFY_EMAIL_CHANGE'',
                            s))))"

definition changeUsername ::
  "env \<Rightarrow> int \<Rightarrow> db \<Rightarrow> objectId \<Rightarrow> string \<Rightarrow> string \<Rightarrow> string \<Rightarrow> string \<Rightarrow> string \<Rightarrow> string
     \<Rightarrow> response \<times> db"
where
  "changeUsername e now s userId oldUsername newUsername ip userAgent fingerprint verification' =
     (let usernameMatches = isExistingUsername s oldUsername;
          error = (if \<not> usernameMatches
                   then [(''oldUsername'', OLD_USERNAME_DOES_NOT_MATCH)] else []);
          error = (if isExistingUsername s newUsername
                   then error @ [(''newUsername'', USERNAME_ALREADY_EXISTS)] else error)
      in if \<not> isEmpty error then (RpcException (FieldErrors error), s)
         else
           (let user = findOne (\<lambda>u. uid u = userId \<and> isActive u) (users s);
                userChangeRequests =
                  countDocuments (\<lambda>r. cpd_user r = ObjectId userId \<and> cpd_verified r = False)
                    (changePrimaryData s)
            in case user of
                 None \<Rightarrow> (Undefined, s)
               | Some user \<Rightarrow>
                  if isBlocked user \<or> userChangeRequests \<noteq> 0
                  then (RpcException (USER_HAS_BEEN_BLOCKED MustVerifyPreviousChange), s)
                  else
                    (let changePrimaryDataRequest =
                           newChangeRequest e (ObjectId userId) verification' ip userAgent
                             fingerprint Username
                     in case saveRequest changePrimaryDataRequest s of
                          None \<Rightarrow> (Undefined, s)
                        | Some s \<Rightarrow>
                           (let s = s\<lparr>users :=
                                        updateOne
                                          (\<lambda>u. uid u = userId \<and> username u = oldUsername
                                                \<and> isActive u)
                                          (\<lambda>u. u\<lparr>username := newUsername, isBlocked := True,
                                                  verificationExpires := now + HOURS_TO_VERIFY e,
                                                  blockExpires := now + HOURS_TO_VERIFY e,
                                                  verification := verification'\<rparr>)
                                          (users s)\<rparr>
                            in (Observable ''verify'' verification' (email user)
                                  ''VERIFY_USERNAME_CHANGE'', s)))))"

text \<open>
  \<open>changePhoneNumber\<close> checks the new number with \<open>_isExistingEmail\<close> and counts the
  requests under the filter \<open>{ userId, verified: false }\<close>.
\<close>

definition changePhoneNumber ::
  "env \<Rightarrow> int \<Rightarrow> db \<Rightarrow> objectId \<Rightarrow> string \<Rightarrow> string \<Rightarrow> string \<Rightarrow> string \<Rightarrow> string \<Rightarrow> string
     \<Rightarrow> response \<times> db"
where
  "changePhoneNumber e now s userId oldPhoneNumber newPhoneNumber ip userAgent fingerprint
       verification' =
     (let phoneMatches = isExistingPhone s oldPhoneNumber;
          error = (if \<not> phoneMatches
                   then [(''oldPhoneNumber'', OLD_TEL_NUM_DOES_NOT_MATCH)] else []);
          error = (if isExistingEmail s newPhoneNumber
                   then error @ [(''newPhoneNumber'', TEL_NUM_ALREADY_EXISTS)] else error)
      in if \<not> isEmpty error then (RpcException (FieldErrors error), s)
         else
           (let user = findOne (\<lambda>u. uid u = userId \<and> isActive u) (users s);
                userChangeRequests =
                  countDocuments (\<lambda>r. unknownPath e \<and> cpd_verified r = False)
                    (changePrimaryData s)
            in case user of
                 None \<Rightarrow> (Undefined, s)
               | Some user \<Rightarrow>
                  if isBlocked user \<or> userChangeRequests \<noteq> 0
                  then (RpcException (USER_HAS_BEEN_BLOCKED MustVerifyPreviousChange), s)
                  else
                    (let s = s\<lparr>users :=
                                 updateOne
                                   (\<lambda>u. uid u = userId \<and> phoneNumber u = oldPhoneNumber
                                         \<and> isActive u)
                                   (\<lambda>u. u\<lparr>phoneNumber := newPhoneNumber, isBlocked := True,
                                           verificationExpires := now + HOURS_TO_VERIFY e,
                                           blockExpires := now + HOURS_TO_VERIFY e,
                                           verification := verification'\<rparr>)
                                   (users s)\<rparr>;
                         changePrimaryDataRequest =
                           newChangeRequest e (ObjectId userId) verification' ip userAgent
                             fingerprint Phone
                     in case saveRequest changePrimaryDataRequest s of
                          None \<Rightarrow> (Undefined, s)
                        | Some s \<Rightarrow>
                           (Observable ''verify'' verification' (email user)
                              ''VERIFY_PHONE_CHANGE'', s))))"

text \<open>
  \<open>changePassword\<close> reads the vault and updates it under the filter \<open>{ userId }\<close>, and
  counts the requests under \<open>{ userId, verified: false }\<close>.  Destructuring the result of
  \<open>findOne\<close> throws when there is no vault; reading \<open>user.password\<close> throws when there
  is no user.  The request is saved with \<open>user: userId\<close>, the string.  \<open>salts\<close> and
  \<open>nonces\<close> feed the uniqueness check, \<open>salt\<close> and \<open>nonce\<close> the new hash.  The result
  is \<open>None\<close> when the uniqueness check never ends.
\<close>

definition changePassword ::
  "env \<Rightarrow> int \<Rightarrow> db \<Rightarrow> int \<Rightarrow> (nat \<Rightarrow> string) \<Rightarrow> (nat \<Rightarrow> string) \<Rightarrow> objectId \<Rightarrow> string \<Rightarrow> string
     \<Rightarrow> string \<Rightarrow> string \<Rightarrow> string \<Rightarrow> string \<Rightarrow> string \<Rightarrow> string
     \<Rightarrow> (response \<times> db \<times> int) option"
where
  "changePassword e now s counter salts nonces userId oldPassword newPassword ip userAgent
       fingerprint salt nonce verification' =
     (let user = findOne (\<lambda>u. uid u = userId \<and> isActive u) (users s)
      in case findOne (\<lambda>v. unknownPath e) (vaults s) of
           None \<Rightarrow> Some (Undefined, s, counter)
         | Some vault \<Rightarrow>
            (case user of
               None \<Rightarrow> Some (Undefined, s, counter)
             | Some user \<Rightarrow>
                (let oldSalt = vault_salt vault
                 in Option.bind
                      (if \<not> argon2_verify e (password user) (oldSalt @ oldPassword)
                       then Some ([(''oldPassword'', OLD_PASSWORD_DOES_NOT_MATCH)], counter)
                       else Option.bind
                              (validatePasswordUniqueness e s salts nonces newPassword 0 counter)
                              (\<lambda>(unique, counter).
                                 Some (if unique \<noteq> Some True
                                       then [(''newPassword'', INVALID_PASSWORD)] else [],
                                       counter)))
                      (\<lambda>(error, counter).
                         if \<not> isEmpty error then Some (RpcException (FieldErrors error), s, counter)
                         else
                           (let userChangeRequests =
                                  countDocuments (\<lambda>r. unknownPath e \<and> cpd_verified r = False)
                                    (changePrimaryData s)
                            in if isBlocked user \<or> userChangeRequests \<noteq> 0
                               then Some (RpcException
                                            (USER_HAS_BEEN_BLOCKED MustVerifyPreviousChange),
                                          s, counter)
                               else
                                 (let newPassword = generatePassword e nonce newPassword salt;
                                      s = s\<lparr>users :=
                                              updateOne (\<lambda>u. uid u = userId)
                                                (\<lambda>u. u\<lparr>password := newPassword, isBlocked := True,
                                                   verificationExpires := now + HOURS_TO_VERIFY e,
                                                   blockExpires := now + HOURS_TO_VERIFY e,
                                                   verification := verification'\<rparr>)
                                                (users s)\<rparr>;
                                      s = s\<lparr>vaults :=
                                              updateOne (\<lambda>v. unknownPath e)
                                                (\<lambda>v. v\<lparr>vault_salt := salt\<rparr>) (vaults s)\<rparr>;
                                      changePrimaryDataRequest =
                                        newChangeRequest e (IdString userId) verification' ip
                                          userAgent fingerprint Password
                                  in case saveRequest changePrimaryDataRequest s of
                                       None \<Rightarrow> Some (Undefined, s, counter)
                                     | Some s \<Rightarrow>
                                        Some (Observable ''verify'' verification' (email user)
                                                ''VERIFY_PASSWORD_CHANGE'', s, counter)))))))"

section \<open>Redeeming a change request\<close>

text \<open>
  \<open>verifyPrimaryDataChange\<close>: the existence check and both updates filter on \<open>userId\<close>;
  only the final \<open>findOne\<close> filters on \<open>_id\<close>.
\<close>

definition verifyPrimaryDataChange ::
  "env \<Rightarrow> db \<Rightarrow> objectId \<Rightarrow> string \<Rightarrow> data_type \<Rightarrow> response \<times> db"
where
  "verifyPrimaryDataChange e s userId verification' dataType =
     (let primaryDataChangeRequestExists =
            existsDoc (\<lambda>r. unknownPath e \<and> cpd_verification r = verification'
                            \<and> cpd_dataType r = dataType \<and> cpd_verified r = False)
              (changePrimaryData s)
      in if primaryDataChangeRequestExists then
           (let s = s\<lparr>users :=
                       updateOne (\<lambda>u. unknownPath e)
                         (\<lambda>u. u\<lparr>isBlocked := False, verification := [],
                                 verificationExpires := 0, blockExpires := 0\<rparr>)
                         (users s)\<rparr>;
                s = s\<lparr>changePrimaryData :=
                       updateOne (\<lambda>r. unknownPath e \<and> cpd_verification r = verification'
                                       \<and> cpd_dataType r = dataType)
                         (\<lambda>r. r\<lparr>cpd_verified := True\<rparr>)
                         (changePrimaryData s)\<rparr>
            in case findOne (\<lambda>u. uid u = userId \<and> isActive u) (users s) of
                 None \<Rightarrow> (Undefined, s)
               | Some user \<Rightarrow> (UserDataResponse (userData user), s))
         else (HttpStatus BAD_REQUEST, s))"

section \<open>Password reset\<close>

text \<open>
  The schema of the reset requests is not part of the sources at hand; a request holds the
  fields that \<open>restPassword\<close> passes to \<open>create\<close>.
\<close>

definition restPassword ::
  "env \<Rightarrow> int \<Rightarrow> db \<Rightarrow> string \<Rightarrow> string \<Rightarrow> string \<Rightarrow> string \<Rightarrow> string \<Rightarrow> response \<times> db"
where
  "restPassword e now s ip userAgent fingerprint email' verification' =
     (let userExists = existsDoc (\<lambda>u. email u = email' \<and> isActive u) (users s)
      in if userExists then
           (let forgotPassword =
                  \<lparr>fp_email = email', fp_verification = verification',
                   fp_expires = now + HOURS_TO_VERIFY e, fp_ipOfRequest = ip,
                   fp_browserOfRequest = userAgent, fp_fingerprintOfRequest = fingerprint\<rparr>;
                s = s\<lparr>forgotPasswords := forgotPasswords s @ [forgotPassword]\<rparr>
            in (Observable ''reset-password'' (fp_verification forgotPassword)
                  (fp_email forgotPassword) ''RESET_PASSWORD'', s))
         else (HttpStatus BAD_REQUEST, s))"

text \<open>
  \<open>verifyPasswordReset({ email, verifyUuidDto })\<close>; the DTO holds \<open>verification\<close>,
  \<open>newPassword\<close> and \<open>newPasswordVerification\<close>.
\<close>

definition verifyPasswordReset ::
  "env \<Rightarrow> db \<Rightarrow> string \<Rightarrow> string \<Rightarrow> string \<Rightarrow> string \<Rightarrow> string \<Rightarrow> string \<Rightarrow> response \<times> db"
where
  "verifyPasswordReset e s email' verification' newPassword newPasswordVerification salt nonce =
     (let forgotPassword =
            existsDoc (\<lambda>f. fp_verification f = verification') (forgotPasswords s)
      in if forgotPassword then
           if newPassword = newPasswordVerification then
             (case findOne (\<lambda>u. email u = email') (users s) of
                None \<Rightarrow> (Undefined, s)
              | Some user \<Rightarrow>
                 (let newPassword = generatePassword e nonce newPassword salt;
                      s = s\<lparr>users :=
                              updateOne (\<lambda>u. uid u = uid user)
                                (\<lambda>u. u\<lparr>password := newPassword\<rparr>) (users s)\<rparr>;
                      s = s\<lparr>vaults :=
                              updateOne (\<lambda>v. vault_user v = uid user)
                                (\<lambda>v. v\<lparr>vault_salt := salt\<rparr>) (vaults s)\<rparr>
                  in (HttpStatus OK, s)))
           else (RpcException PASSWORDS_DOES_NOT_MATCH, s)
         else (HttpStatus BAD_REQUEST, s))"

section \<open>A configuration and accounts for examples\<close>

text \<open>
  A stand-in for the argon2 library, for evaluating the operations on examples: the derived
  bytes are the plain text, so that the hash is the library salt, a dollar sign and the
  plain text; verifying compares the text after the first dollar sign.
\<close>

definition testTag :: "string \<Rightarrow> argon2_options \<Rightarrow> string \<Rightarrow> string" where
  "testTag nonce opts plain = plain"

definition testVerify :: "string \<Rightarrow> string \<Rightarrow> bool" where
  "testVerify hash plain = (tl (dropWhile (\<lambda>c. c \<noteq> CHR ''$'') hash) = plain)"

text \<open>
  Five attempts block for 24 hours, a change is verified within one hour, three password
  validations; the token service returns both tokens.
\<close>

definition testEnv :: "bool \<Rightarrow> env" where
  "testEnv strict =
     \<lparr>LOGIN_ATTEMPTS_TO_BLOCK = 5, HOURS_TO_BLOCK = 86400000, HOURS_TO_VERIFY = 3600000,
      JWT_EXPIRATION_TIME = 900000, JWT_EXPIRATION_TIME_LONG = 2592000000,
      MAXIMUM_PASSWORD_VALIDATIONS = Some 3, strictQuery = strict,
      argon2_tag = testTag, argon2_verify = testVerify,
      generateJWT = (\<lambda>userId sessionData. JWTTokens ''at'' ''rt'')\<rparr>"

definition alice :: user_doc where
  "alice =
     \<lparr>uid = 1, email = ''a@x'', username = ''alice'', phoneNumber = ''111'',
      password = ''n$s1pw'', isActive = True, isBlocked = False, blockExpires = 0,
      loginAttempts = 0, verification = [], verificationExpires = 0,
      firstName = [], lastName = [], birthday = [], photo = []\<rparr>"

definition bob :: user_doc where
  "bob =
     \<lparr>uid = 2, email = ''b@x'', username = ''bob'', phoneNumber = ''222'',
      password = ''n$s2pw'', isActive = True, isBlocked = False, blockExpires = 0,
      loginAttempts = 0, verification = [], verificationExpires = 0,
      firstName = [], lastName = [], birthday = [], photo = []\<rparr>"

definition testVaults :: "vault_doc list" where
  "testVaults = [\<lparr>vault_user = 1, vault_salt = ''s1''\<rparr>, \<lparr>vault_user = 2, vault_salt = ''s2''\<rparr>]"

definition testDb :: "user_doc list \<Rightarrow> change_primary_data list \<Rightarrow> forgot_password list \<Rightarrow> db" where
  "testDb us rs fs =
     \<lparr>users = us, vaults = testVaults, changePrimaryData = rs, forgotPasswords = fs\<rparr>"

definition loginByUsername :: "string \<Rightarrow> string \<Rightarrow> login_dto" where
  "loginByUsername n pw =
     \<lparr>dto_username = n, dto_phoneNumber = [], dto_email = [], dto_password = pw,
      rememberMe = False\<rparr>"

text \<open>
  The account \<open>bob\<close> after his accepted request, at time 1000, to change his email from
  \<open>b@x\<close> to \<open>b2@x\<close>, and the request saved for it.
\<close>

definition bobPending :: user_doc where
  "bobPending = bob\<lparr>email := ''b2@x'', isBlocked := True, verificationExpires := 3601000,
                     blockExpires := 3601000, verification := ''tok''\<rparr>"

definition bobRequest :: change_primary_data where
  "bobRequest =
     \<lparr>cpd_user = ObjectId 2, cpd_verification = ''tok'', cpd_expires = 3600000, cpd_ipOfRequest = ''ip'',
      cpd_browserOfRequest = ''ua'', cpd_fingerprintOfRequest = ''fp'', cpd_dataType = Email,
      cpd_verified = False\<rparr>"

text \<open>
  A request saved for \<open>alice\<close> by \<open>changeEmail\<close> called with the old email \<open>b@x\<close>, which
  exists but is not hers: the update of the account matches nothing and she is not blocked.
\<close>

definition aliceRequest :: change_primary_data where
  "aliceRequest =
     \<lparr>cpd_user = ObjectId 1, cpd_verification = ''tk1'', cpd_expires = 3600000, cpd_ipOfRequest = ''ip'',
      cpd_browserOfRequest = ''ua'', cpd_fingerprintOfRequest = ''fp'', cpd_dataType = Email,
      cpd_verified = False\<rparr>"

text \<open>\<open>alice\<close> locked out by five wrong secrets at time 2000.\<close>

definition aliceLocked :: user_doc where
  "aliceLocked = alice\<lparr>isBlocked := True, blockExpires := 86402000\<rparr>"

text \<open>The reset request that \<open>restPassword\<close> saves for \<open>a@x\<close> at time 1000.\<close>

definition aliceReset :: forgot_password where
  "aliceReset =
     \<lparr>fp_email = ''a@x'', fp_verification = ''rt1'', fp_expires = 3601000,
      fp_ipOfRequest = ''ip'', fp_browserOfRequest = ''ua'', fp_fingerprintOfRequest = ''fp''\<rparr>"

text \<open>A token service that returns an object without tokens.\<close>

definition noTokens :: "objectId \<Rightarrow> session_data \<Rightarrow> jwt_outcome" where
  "noTokens userId sessionData = JWTTokens [] []"

text \<open>
  An account whose stored hash is the one the uniqueness check derives from the salt
  \<open>q0\<close>, and three sources of random draws: the salt \<open>q0\<close> at every draw, the salt
  \<open>q0\<close> at the first draw only, and the library salt \<open>n\<close>.
\<close>

definition carol :: user_doc where
  "carol = alice\<lparr>uid := 3, email := ''c@x'', username := ''carol'', phoneNumber := ''333'',
                 password := ''n$q0pw''\<rparr>"

definition collidingSalts :: "nat \<Rightarrow> string" where
  "collidingSalts k = ''q0''"

definition recoveringSalts :: "nat \<Rightarrow> string" where
  "recoveringSalts k = (if k = 0 then ''q0'' else ''q1'')"

definition fixedNonces :: "nat \<Rightarrow> string" where
  "fixedNonces k = ''n''"

text \<open>
  The number \<open>changeEmail\<close> and \<open>changeUsername\<close> take before they accept a request:
  \<open>countDocuments({ user: Types.ObjectId(userId), verified: false })\<close>.
\<close>

definition unverifiedRequests :: "db \<Rightarrow> objectId \<Rightarrow> nat" where
  "unverifiedRequests s userId =
     countDocuments (\<lambda>r. cpd_user r = ObjectId userId \<and> cpd_verified r = False)
       (changePrimaryData s)"

text \<open>The unverified requests of an account, whichever way their owner was written.\<close>

definition pendingRequests :: "db \<Rightarrow> objectId \<Rightarrow> nat" where
  "pendingRequests s userId =
     countDocuments (\<lambda>r. ownerId (cpd_user r) = userId \<and> cpd_verified r = False)
       (changePrimaryData s)"

text \<open>
  \<open>alice\<close> after her accepted request, at time 400, to change her password, the request
  saved for it, and the store with her new salt in the vault.
\<close>

definition alicePending :: user_doc where
  "alicePending = alice\<lparr>password := ''n$s9new'', isBlocked := True,
                         verificationExpires := 3600400, blockExpires := 3600400,
                         verification := ''tkp''\<rparr>"

definition alicePasswordRequest :: change_primary_data where
  "alicePasswordRequest =
     \<lparr>cpd_user = IdString 1, cpd_verification = ''tkp'', cpd_expires = 3600000,
      cpd_ipOfRequest = ''ip'', cpd_browserOfRequest = ''ua'', cpd_fingerprintOfRequest = ''fp'',
      cpd_dataType = Password, cpd_verified = False\<rparr>"

definition rotatedDb :: "user_doc list \<Rightarrow> change_primary_data list \<Rightarrow> db" where
  "rotatedDb us rs =
     \<lparr>users = us,
      vaults = [\<lparr>vault_user = 1, vault_salt = ''s9''\<rparr>, \<lparr>vault_user = 2, vault_salt = ''s2''\<rparr>],
      changePrimaryData = rs, forgotPasswords = []\<rparr>"

section \<open>Facts about the store\<close>

lemmas store_defs = findOne_def existsDoc_def countDocuments_def save_def findById_def
  isEmpty_def unknownPath_def userData_def saveRequest_def newChangeRequest_def
  isExistingEmail_def isExistingUsername_def isExistingPhone_def isExistingPassword_def
  generatePassword_def argon2_hash_def

lemmas test_defs = testEnv_def testDb_def alice_def bob_def testVaults_def
  loginByUsername_def testVerify_def testTag_def bobPending_def bobRequest_def
  aliceRequest_def aliceLocked_def aliceReset_def noTokens_def carol_def
  alicePending_def alicePasswordRequest_def rotatedDb_def
  collidingSalts_def recoveringSalts_def fixedNonces_def

lemma updateOne_twice:
  "(\<And>x. P x \<Longrightarrow> P (f x)) \<Longrightarrow> updateOne P g (updateOne P f xs) = updateOne P (g \<circ> f) xs"
  by (induction xs) auto

lemma save_save: "uid a = uid b \<Longrightarrow> save a (save b s) = save a s"
  by (simp add: save_def updateOne_twice comp_def)

lemma vaults_save: "vaults (save u s) = vaults s"
  by (simp add: save_def)

lemma countDocuments_append:
  "countDocuments P (xs @ [r]) = countDocuments P xs + (if P r then 1 else 0)"
  by (simp add: countDocuments_def)

lemma takeWhile_until: "c \<notin> set n \<Longrightarrow> takeWhile (\<lambda>x. x \<noteq> c) (n @ c # r) = n"
  by (induction n) auto

lemma findUser_Some_error: "findUser s dto = (Some u, err) \<Longrightarrow> err = []"
  by (auto simp: findUser_def Let_def split: if_splits)

section \<open>Login: lockout\<close>

text \<open>
  Claim C3.  A login reaches the check of the secret when the account is found, is not
  both active and blocked, and has a vault.  When the secret does not verify there, the
  attempts go up by one.  If they reach \<open>LOGIN_ATTEMPTS_TO_BLOCK\<close>, the account is saved
  blocked, with \<open>blockExpires = now + HOURS_TO_BLOCK\<close> and the attempts back at 0, and the
  caller receives \<open>USER_HAS_BEEN_BLOCKED\<close>.  Below the threshold the account is saved with
  the incremented attempts and the caller receives the error object that holds
  \<open>password = INVALID_PASSWORD\<close>.  (The account saved below the threshold is the one the
  expiry check before it left: a block date in the past is cleared there; the error object
  of an account that is not active also holds \<open>NOT_ACTIVE\<close>.)
\<close>

theorem login_wrong_secret:
  assumes found: "findUser s dto = (Some u, err)"
    and free: "\<not> (isActive u \<and> isBlocked u)"
    and vault: "findOne (\<lambda>v. vault_user v = uid u) (vaults s) = Some v"
    and wrong: "\<not> argon2_verify e (password u) (vault_salt v @ dto_password dto)"
  shows "login e now s ip userAgent fingerprint dto =
           (if LOGIN_ATTEMPTS_TO_BLOCK e \<le> loginAttempts u + 1
            then (RpcException (USER_HAS_BEEN_BLOCKED BlockedFor),
                  save (u\<lparr>blockExpires := now + HOURS_TO_BLOCK e, isBlocked := True,
                          loginAttempts := 0\<rparr>) s)
            else (RpcException
                    (FieldErrors ((if isActive u then [] else [(''internalFailure'', NOT_ACTIVE)])
                                  @ [(''password'', INVALID_PASSWORD)])),
                  save ((if isActive u \<and> blockExpires u \<noteq> 0 \<and> blockExpires u < now
                         then u\<lparr>isBlocked := False, blockExpires := 0\<rparr> else u)
                          \<lparr>loginAttempts := loginAttempts u + 1\<rparr>) s))"
proof -
  have e: "err = []" using found by (rule findUser_Some_error)
  show ?thesis
    using free vault wrong
    by (simp add: login_def found e isEmpty_def Let_def save_save vaults_save)
qed

text \<open>
  With a threshold of 5 and a lockout of 24 hours, at time 2000: the fifth wrong secret
  blocks the account until 86402000 and resets the attempts, the fourth only counts.
\<close>

theorem login_wrong_secret_witness:
  "login (testEnv False) 2000 (testDb [alice, bob\<lparr>loginAttempts := 4\<rparr>] [] []) ''ip'' ''ua'' ''fp''
       (loginByUsername ''bob'' ''bad'')
     = (RpcException (USER_HAS_BEEN_BLOCKED BlockedFor),
        testDb [alice, bob\<lparr>isBlocked := True, blockExpires := 86402000\<rparr>] [] [])
   \<and> login (testEnv False) 2000 (testDb [alice, bob\<lparr>loginAttempts := 3\<rparr>] [] []) ''ip'' ''ua'' ''fp''
       (loginByUsername ''bob'' ''bad'')
     = (RpcException (FieldErrors [(''password'', INVALID_PASSWORD)]),
        testDb [alice, bob\<lparr>loginAttempts := 4\<rparr>] [] [])"
  using login_wrong_secret [of "testDb [alice, bob\<lparr>loginAttempts := 4\<rparr>] [] []"
          "loginByUsername ''bob'' ''bad''" "bob\<lparr>loginAttempts := 4\<rparr>" "[]"
          "\<lparr>vault_user = 2, vault_salt = ''s2''\<rparr>" "testEnv False" 2000 "''ip''" "''ua''" "''fp''"]
        login_wrong_secret [of "testDb [alice, bob\<lparr>loginAttempts := 3\<rparr>] [] []"
          "loginByUsername ''bob'' ''bad''" "bob\<lparr>loginAttempts := 3\<rparr>" "[]"
          "\<lparr>vault_user = 2, vault_salt = ''s2''\<rparr>" "testEnv False" 2000 "''ip''" "''ua''" "''fp''"]
  by (simp add: findUser_def store_defs test_defs)

section \<open>Login: a block whose date has passed\<close>

text \<open>
  An active account with \<open>isBlocked\<close> set is refused at any time: the clock is not read
  before the refusal, and the store is left as it is.
\<close>

lemma login_blocked_any_time:
  assumes found: "findUser s dto = (Some u, err)"
    and active: "isActive u"
    and blocked: "isBlocked u"
  shows "login e now s ip userAgent fingerprint dto
           = (RpcException (USER_HAS_BEEN_BLOCKED BlockedValue), s)"
proof -
  have e: "err = []" using found by (rule findUser_Some_error)
  show ?thesis
    using active blocked by (simp add: login_def found e isEmpty_def)
qed

text \<open>
  Claim C2.  \<open>login\<close> returns \<open>USER_HAS_BEEN_BLOCKED\<close> for every active account with
  \<open>isBlocked\<close> set, before it compares \<open>blockExpires\<close> with the clock: the branch that
  clears an expired block is reached only by accounts that are not blocked.  Here the
  block of the account expired at 1000; at 2000, with the right secret, the login is
  refused and the account stays blocked.
\<close>

theorem login_blocked_after_expiry:
  "login (testEnv False) 2000
       (testDb [alice, bob\<lparr>isBlocked := True, blockExpires := 1000\<rparr>] [] [])
       ''ip'' ''ua'' ''fp'' (loginByUsername ''bob'' ''pw'')
     = (RpcException (USER_HAS_BEEN_BLOCKED BlockedValue),
        testDb [alice, bob\<lparr>isBlocked := True, blockExpires := 1000\<rparr>] [] [])"
  by (simp add: login_def findUser_def store_defs test_defs)


section \<open>Login: the right secret\<close>

text \<open>
  Claim C7, amended.  On an active account that is not blocked and has a vault, a login
  whose secret verifies calls the token service.  When the service returns an access token
  and a refresh token, the account is saved with \<open>loginAttempts = 0\<close>, whatever the
  count was, and the caller receives the account view with the tokens.  When a token is
  missing the caller receives \<open>BAD_REQUEST\<close>, when the service throws the caller receives
  nothing, and in both cases the attempts keep their value: the store is the one the expiry
  check left.
\<close>

theorem login_right_secret:
  assumes found: "findUser s dto = (Some u, err)"
    and active: "isActive u"
    and free: "\<not> isBlocked u"
    and vault: "findOne (\<lambda>v. vault_user v = uid u) (vaults s) = Some v"
    and right: "argon2_verify e (password u) (vault_salt v @ dto_password dto)"
  shows "login e now s ip userAgent fingerprint dto =
           (let expired = (blockExpires u \<noteq> 0 \<and> blockExpires u < now);
                u1 = (if expired then u\<lparr>isBlocked := False, blockExpires := 0\<rparr> else u);
                s1 = (if expired then save u1 s else s)
            in case generateJWT e (uid u)
                      \<lparr>sess_ip = ip, sess_userAgent = userAgent, sess_fingerprint = fingerprint,
                       expiresIn = now + (if rememberMe dto then JWT_EXPIRATION_TIME_LONG e
                                          else JWT_EXPIRATION_TIME e),
                       createdAt = now\<rparr> of
                 JWTThrows \<Rightarrow> (Undefined, s1)
               | JWTTokens accessToken refreshToken \<Rightarrow>
                   if accessToken \<noteq> [] \<and> refreshToken \<noteq> []
                   then (LoginResponse (userData u1) accessToken refreshToken,
                         save (u1\<lparr>loginAttempts := 0\<rparr>) s)
                   else (HttpStatus BAD_REQUEST, s1))"
proof -
  have e: "err = []" using found by (rule findUser_Some_error)
  show ?thesis
    using active free vault right
    by (simp add: login_def issueTokens_def found e isEmpty_def Let_def save_save vaults_save
                  userData_def split: jwt_outcome.splits)
qed

text \<open>
  After three failed attempts, the right secret: with both tokens the count is back at 0,
  without tokens it stays at 3.
\<close>

theorem login_right_secret_witness:
  "login (testEnv False) 2000 (testDb [alice, bob\<lparr>loginAttempts := 3\<rparr>] [] []) ''ip'' ''ua'' ''fp''
       (loginByUsername ''bob'' ''pw'')
     = (LoginResponse (userData bob) ''at'' ''rt'', testDb [alice, bob] [] [])
   \<and> login ((testEnv False)\<lparr>generateJWT := noTokens\<rparr>) 2000
        (testDb [alice, bob\<lparr>loginAttempts := 3\<rparr>] [] []) ''ip'' ''ua'' ''fp''
        (loginByUsername ''bob'' ''pw'')
     = (HttpStatus BAD_REQUEST, testDb [alice, bob\<lparr>loginAttempts := 3\<rparr>] [] [])"
  using login_right_secret [of "testDb [alice, bob\<lparr>loginAttempts := 3\<rparr>] [] []"
          "loginByUsername ''bob'' ''pw''" "bob\<lparr>loginAttempts := 3\<rparr>" "[]"
          "\<lparr>vault_user = 2, vault_salt = ''s2''\<rparr>" "testEnv False" 2000 "''ip''" "''ua''" "''fp''"]
        login_right_secret [of "testDb [alice, bob\<lparr>loginAttempts := 3\<rparr>] [] []"
          "loginByUsername ''bob'' ''pw''" "bob\<lparr>loginAttempts := 3\<rparr>" "[]"
          "\<lparr>vault_user = 2, vault_salt = ''s2''\<rparr>" "(testEnv False)\<lparr>generateJWT := noTokens\<rparr>"
          2000 "''ip''" "''ua''" "''fp''"]
  by (simp add: findUser_def store_defs test_defs)

text \<open>
  The reset does not happen "regardless of the outcome of the token service": the secret
  verifies, the service returns no tokens, and the two failed attempts stay on the account.
\<close>

theorem login_no_tokens_keeps_attempts:
  "argon2_verify ((testEnv False)\<lparr>generateJWT := noTokens\<rparr>) (password bob) (''s2'' @ ''pw'')
   \<and> login ((testEnv False)\<lparr>generateJWT := noTokens\<rparr>) 2000
        (testDb [alice, bob\<lparr>loginAttempts := 2\<rparr>] [] []) ''ip'' ''ua'' ''fp''
        (loginByUsername ''bob'' ''pw'')
     = (HttpStatus BAD_REQUEST, testDb [alice, bob\<lparr>loginAttempts := 2\<rparr>] [] [])
   \<and> loginAttempts (bob\<lparr>loginAttempts := 2\<rparr>) \<noteq> 0"
  by (simp add: login_def issueTokens_def findUser_def store_defs test_defs)

section \<open>A second request while one is unverified\<close>

text \<open>
  Claim C1, amended to the requests that \<open>changeEmail\<close> and \<open>changeUsername\<close> count and
  to these two kinds.  When the account has an unverified request saved under its ObjectId
  (as \<open>changeEmail\<close>, \<open>changeUsername\<close> and \<open>changePhoneNumber\<close> save it), a call of
  \<open>changeEmail\<close> or \<open>changeUsername\<close> for the account leaves the store as it is, so it
  creates no request.  The caller receives \<open>USER_HAS_BEEN_BLOCKED\<close> ("You must verify
  previous data change") when the old value exists, the new one does not, and the account
  is active; the validation errors come first, and a call for an account that is not active
  ends in the \<open>catch\<close> block.
\<close>

theorem pending_request_blocks_change:
  assumes pending: "unverifiedRequests s userId \<noteq> 0"
  shows "changeEmail e now s userId oldEmail newEmail ip userAgent fingerprint verification'
        = (if \<not> isExistingEmail s oldEmail \<or> isExistingEmail s newEmail
           then RpcException (FieldErrors
                  ((if isExistingEmail s oldEmail then []
                    else [(''oldEmail'', OLD_EMAIL_DOES_NOT_MATCH)])
                   @ (if isExistingEmail s newEmail
                      then [(''newEmail'', EMAIL_ALREADY_EXISTS)] else [])))
           else if findOne (\<lambda>u. uid u = userId \<and> isActive u) (users s) = None then Undefined
           else RpcException (USER_HAS_BEEN_BLOCKED MustVerifyPreviousChange), s)
    \<and> changeUsername e now s userId oldUsername newUsername ip userAgent fingerprint
          verification'
        = (if \<not> isExistingUsername s oldUsername \<or> isExistingUsername s newUsername
           then RpcException (FieldErrors
                  ((if isExistingUsername s oldUsername then []
                    else [(''oldUsername'', OLD_USERNAME_DOES_NOT_MATCH)])
                   @ (if isExistingUsername s newUsername
                      then [(''newUsername'', USERNAME_ALREADY_EXISTS)] else [])))
           else if findOne (\<lambda>u. uid u = userId \<and> isActive u) (users s) = None then Undefined
           else RpcException (USER_HAS_BEEN_BLOCKED MustVerifyPreviousChange), s)"
proof
  from pending show "changeEmail e now s userId oldEmail newEmail ip userAgent fingerprint
          verification'
        = (if \<not> isExistingEmail s oldEmail \<or> isExistingEmail s newEmail
           then RpcException (FieldErrors
                  ((if isExistingEmail s oldEmail then []
                    else [(''oldEmail'', OLD_EMAIL_DOES_NOT_MATCH)])
                   @ (if isExistingEmail s newEmail
                      then [(''newEmail'', EMAIL_ALREADY_EXISTS)] else [])))
           else if findOne (\<lambda>u. uid u = userId \<and> isActive u) (users s) = None then Undefined
           else RpcException (USER_HAS_BEEN_BLOCKED MustVerifyPreviousChange), s)"
    by (simp add: changeEmail_def Let_def isEmpty_def unverifiedRequests_def
             split: option.splits)
  from pending show "changeUsername e now s userId oldUsername newUsername ip userAgent
          fingerprint verification'
        = (if \<not> isExistingUsername s oldUsername \<or> isExistingUsername s newUsername
           then RpcException (FieldErrors
                  ((if isExistingUsername s oldUsername then []
                    else [(''oldUsername'', OLD_USERNAME_DOES_NOT_MATCH)])
                   @ (if isExistingUsername s newUsername
                      then [(''newUsername'', USERNAME_ALREADY_EXISTS)] else [])))
           else if findOne (\<lambda>u. uid u = userId \<and> isActive u) (users s) = None then Undefined
           else RpcException (USER_HAS_BEEN_BLOCKED MustVerifyPreviousChange), s)"
    by (simp add: changeUsername_def Let_def isEmpty_def unverifiedRequests_def
             split: option.splits)
qed

text \<open>
  \<open>bob\<close> has one unverified request, saved by \<open>changeEmail\<close>.  His next requests, with
  his current email and username as the old values, are refused and change nothing.
\<close>

theorem pending_request_blocks_change_witness:
  "unverifiedRequests (testDb [alice, bobPending] [bobRequest] []) 2 \<noteq> 0
   \<and> changeEmail (testEnv False) 5000 (testDb [alice, bobPending] [bobRequest] []) 2
        ''b2@x'' ''b3@x'' ''ip'' ''ua'' ''fp'' ''tk2''
      = (RpcException (USER_HAS_BEEN_BLOCKED MustVerifyPreviousChange),
         testDb [alice, bobPending] [bobRequest] [])
   \<and> changeUsername (testEnv False) 5000 (testDb [alice, bobPending] [bobRequest] []) 2
        ''bob'' ''bobby'' ''ip'' ''ua'' ''fp'' ''tk2''
      = (RpcException (USER_HAS_BEEN_BLOCKED MustVerifyPreviousChange),
         testDb [alice, bobPending] [bobRequest] [])"
  using pending_request_blocks_change
          [where s = "testDb [alice, bobPending] [bobRequest] []" and userId = 2
             and e = "testEnv False" and now = 5000 and oldEmail = "''b2@x''"
             and newEmail = "''b3@x''" and oldUsername = "''bob''" and newUsername = "''bobby''"
             and ip = "''ip''" and userAgent = "''ua''" and fingerprint = "''fp''"
             and verification' = "''tk2''"]
  by (simp add: unverifiedRequests_def store_defs test_defs)

text \<open>
  As first stated the property fails, for every kind of second request and for the
  invariant.

  \<^item> Kind email: a second request with an old value that no account holds is refused
    with the validation error, not with \<open>USER_HAS_BEEN_BLOCKED\<close>.  Here the old value is
    \<open>b@x\<close>, which \<open>bob\<close> has just replaced.
  \<^item> Kind phone: \<open>changePhoneNumber\<close> counts under \<open>{ userId, verified: false }\<close>.
    When the clause stays in the filter the count is 0, and an account that has an
    unverified request but is not blocked (the request of \<open>alice\<close>, saved by
    \<open>changeEmail\<close> although the update of her account matched nothing) gets a second one.
  \<^item> Kind password: \<open>changePassword\<close> looks the vault up under \<open>{ userId }\<close>.  When the
    clause stays in the filter there is no vault, and the call ends in the \<open>catch\<close> block
    without any error for the caller.
  \<^item> A first request of kind password: \<open>changePassword\<close> saves the owner as a
    string, which the count of \<open>changeEmail\<close> does not match.  With the \<open>userId\<close> clauses
    dropped: \<open>alice\<close> changes her password; \<open>bob\<close> requests a change of email and
    redeems it, which unblocks the first account, \<open>alice\<close>; her request of a new email is
    then accepted, and she has two unverified requests.
\<close>

theorem second_request_counterexample:
  "unverifiedRequests (testDb [alice, bobPending] [bobRequest] []) 2 = 1
   \<and> changeEmail (testEnv False) 5000 (testDb [alice, bobPending] [bobRequest] []) 2
        ''b@x'' ''b3@x'' ''ip'' ''ua'' ''fp'' ''tk2''
      = (RpcException (FieldErrors [(''oldEmail'', OLD_EMAIL_DOES_NOT_MATCH)]),
         testDb [alice, bobPending] [bobRequest] [])
   \<and> changeEmail (testEnv False) 1000 (testDb [alice, bob] [] []) 1
        ''b@x'' ''a2@x'' ''ip'' ''ua'' ''fp'' ''tk1''
      = (Observable ''verify'' ''tk1'' ''a2@x'' ''VERIFY_EMAIL_CHANGE'',
         testDb [alice, bob] [aliceRequest] [])
   \<and> pendingRequests (testDb [alice, bob] [aliceRequest] []) 1 = 1
   \<and> pendingRequests
        (snd (changePhoneNumber (testEnv False) 5000 (testDb [alice, bob] [aliceRequest] []) 1
                ''111'' ''999'' ''ip'' ''ua'' ''fp'' ''tk2'')) 1 = 2
   \<and> changePassword (testEnv False) 5000 (testDb [alice, bobPending] [bobRequest] []) 0
        recoveringSalts fixedNonces 2 ''pw'' ''new'' ''ip'' ''ua'' ''fp'' ''s9'' ''n'' ''tk2''
      = Some (Undefined, testDb [alice, bobPending] [bobRequest] [], 0)
   \<and> changePassword (testEnv True) 400 (testDb [alice, bob] [] []) 0 recoveringSalts
        fixedNonces 1 ''pw'' ''new'' ''ip'' ''ua'' ''fp'' ''s9'' ''n'' ''tkp''
      = Some (Observable ''verify'' ''tkp'' ''a@x'' ''VERIFY_PASSWORD_CHANGE'',
              rotatedDb [alicePending, bob] [alicePasswordRequest], 0)
   \<and> changeEmail (testEnv True) 1000 (rotatedDb [alicePending, bob] [alicePasswordRequest]) 2
        ''b@x'' ''b2@x'' ''ip'' ''ua'' ''fp'' ''tok''
      = (Observable ''verify'' ''tok'' ''b2@x'' ''VERIFY_EMAIL_CHANGE'',
         rotatedDb [alicePending, bobPending] [alicePasswordRequest, bobRequest])
   \<and> verifyPrimaryDataChange (testEnv True)
        (rotatedDb [alicePending, bobPending] [alicePasswordRequest, bobRequest]) 2 ''tok'' Email
      = (UserDataResponse (userData bobPending),
         rotatedDb [alice\<lparr>password := ''n$s9new''\<rparr>, bobPending]
           [alicePasswordRequest, bobRequest\<lparr>cpd_verified := True\<rparr>])
   \<and> pendingRequests
        (rotatedDb [alice\<lparr>password := ''n$s9new''\<rparr>, bobPending]
           [alicePasswordRequest, bobRequest\<lparr>cpd_verified := True\<rparr>]) 1 = 1
   \<and> fst (changeEmail (testEnv True) 5000
             (rotatedDb [alice\<lparr>password := ''n$s9new''\<rparr>, bobPending]
                [alicePasswordRequest, bobRequest\<lparr>cpd_verified := True\<rparr>]) 1
             ''a@x'' ''a2@x'' ''ip'' ''ua'' ''fp'' ''tk4'')
      = Observable ''verify'' ''tk4'' ''a2@x'' ''VERIFY_EMAIL_CHANGE''
   \<and> pendingRequests
        (snd (changeEmail (testEnv True) 5000
                (rotatedDb [alice\<lparr>password := ''n$s9new''\<rparr>, bobPending]
                   [alicePasswordRequest, bobRequest\<lparr>cpd_verified := True\<rparr>]) 1
                ''a@x'' ''a2@x'' ''ip'' ''ua'' ''fp'' ''tk4'')) 1 = 2"
proof -
  have email: "unverifiedRequests (testDb [alice, bobPending] [bobRequest] []) 2 = 1
     \<and> changeEmail (testEnv False) 5000 (testDb [alice, bobPending] [bobRequest] []) 2
        ''b@x'' ''b3@x'' ''ip'' ''ua'' ''fp'' ''tk2''
      = (RpcException (FieldErrors [(''oldEmail'', OLD_EMAIL_DOES_NOT_MATCH)]),
         testDb [alice, bobPending] [bobRequest] [])"
    by (simp add: changeEmail_def unverifiedRequests_def store_defs test_defs)
  have phone: "changeEmail (testEnv False) 1000 (testDb [alice, bob] [] []) 1
        ''b@x'' ''a2@x'' ''ip'' ''ua'' ''fp'' ''tk1''
      = (Observable ''verify'' ''tk1'' ''a2@x'' ''VERIFY_EMAIL_CHANGE'',
         testDb [alice, bob] [aliceRequest] [])
     \<and> pendingRequests (testDb [alice, bob] [aliceRequest] []) 1 = 1
     \<and> pendingRequests
        (snd (changePhoneNumber (testEnv False) 5000 (testDb [alice, bob] [aliceRequest] []) 1
                ''111'' ''999'' ''ip'' ''ua'' ''fp'' ''tk2'')) 1 = 2"
    by (simp add: changeEmail_def changePhoneNumber_def pendingRequests_def store_defs
                  test_defs)
  have pw: "changePassword (testEnv False) 5000 (testDb [alice, bobPending] [bobRequest] []) 0
        recoveringSalts fixedNonces 2 ''pw'' ''new'' ''ip'' ''ua'' ''fp'' ''s9'' ''n'' ''tk2''
      = Some (Undefined, testDb [alice, bobPending] [bobRequest] [], 0)"
    by (simp add: changePassword_def store_defs test_defs)
  have step1: "changePassword (testEnv True) 400 (testDb [alice, bob] [] []) 0 recoveringSalts
        fixedNonces 1 ''pw'' ''new'' ''ip'' ''ua'' ''fp'' ''s9'' ''n'' ''tkp''
      = Some (Observable ''verify'' ''tkp'' ''a@x'' ''VERIFY_PASSWORD_CHANGE'',
              rotatedDb [alicePending, bob] [alicePasswordRequest], 0)"
    apply (simp add: changePassword_def)
    apply (subst validatePasswordUniqueness.simps)
    apply (simp add: store_defs test_defs)
    done
  have step2: "changeEmail (testEnv True) 1000
        (rotatedDb [alicePending, bob] [alicePasswordRequest]) 2
        ''b@x'' ''b2@x'' ''ip'' ''ua'' ''fp'' ''tok''
      = (Observable ''verify'' ''tok'' ''b2@x'' ''VERIFY_EMAIL_CHANGE'',
         rotatedDb [alicePending, bobPending] [alicePasswordRequest, bobRequest])"
    by (simp add: changeEmail_def store_defs test_defs)
  have step3: "verifyPrimaryDataChange (testEnv True)
        (rotatedDb [alicePending, bobPending] [alicePasswordRequest, bobRequest]) 2 ''tok'' Email
      = (UserDataResponse (userData bobPending),
         rotatedDb [alice\<lparr>password := ''n$s9new''\<rparr>, bobPending]
           [alicePasswordRequest, bobRequest\<lparr>cpd_verified := True\<rparr>])"
    by (simp add: verifyPrimaryDataChange_def store_defs test_defs)
  have step4: "pendingRequests
        (rotatedDb [alice\<lparr>password := ''n$s9new''\<rparr>, bobPending]
           [alicePasswordRequest, bobRequest\<lparr>cpd_verified := True\<rparr>]) 1 = 1
     \<and> fst (changeEmail (testEnv True) 5000
             (rotatedDb [alice\<lparr>password := ''n$s9new''\<rparr>, bobPending]
                [alicePasswordRequest, bobRequest\<lparr>cpd_verified := True\<rparr>]) 1
             ''a@x'' ''a2@x'' ''ip'' ''ua'' ''fp'' ''tk4'')
      = Observable ''verify'' ''tk4'' ''a2@x'' ''VERIFY_EMAIL_CHANGE''
     \<and> pendingRequests
        (snd (changeEmail (testEnv True) 5000
                (rotatedDb [alice\<lparr>password := ''n$s9new''\<rparr>, bobPending]
                   [alicePasswordRequest, bobRequest\<lparr>cpd_verified := True\<rparr>]) 1
                ''a@x'' ''a2@x'' ''ip'' ''ua'' ''fp'' ''tk4'')) 1 = 2"
    by (simp add: changeEmail_def pendingRequests_def store_defs test_defs)
  from email phone pw step1 step2 step3 step4 show ?thesis by blast
qed

section \<open>The hash of a password\<close>

text \<open>
  Claim C6, amended.  \<open>_generatePassword\<close> hashes the salt prepended to the password with
  argon2id, output length 40, memory cost 8192 and time cost 4, and passes no salt to the
  library: the library draws one at each call and writes it into the hash.  So the hash is
  not a function of the secret and the salt alone: two calls with the same secret and salt
  give different hashes whenever the library draws two different salts (salts, as the
  library encodes them, hold no dollar sign), whatever the bytes the algorithm derives.
\<close>

theorem generatePassword_library_salt:
  assumes encoded: "CHR ''$'' \<notin> set n1" "CHR ''$'' \<notin> set n2"
    and differ: "n1 \<noteq> n2"
  shows "generatePassword e n1 pw salt
           = argon2_hash e n1
               \<lparr>hashLength = 40, memoryCost = 8192, timeCost = 4, argon2id = True\<rparr> (salt @ pw)
       \<and> generatePassword e n1 pw salt \<noteq> generatePassword e n2 pw salt"
proof
  show "generatePassword e n1 pw salt
          = argon2_hash e n1
              \<lparr>hashLength = 40, memoryCost = 8192, timeCost = 4, argon2id = True\<rparr> (salt @ pw)"
    by (simp add: generatePassword_def)
  show "generatePassword e n1 pw salt \<noteq> generatePassword e n2 pw salt"
  proof
    assume same: "generatePassword e n1 pw salt = generatePassword e n2 pw salt"
    have "takeWhile (\<lambda>c. c \<noteq> CHR ''$'') (generatePassword e n pw salt) = n"
      if "CHR ''$'' \<notin> set n" for n
      using that
      by (simp add: generatePassword_def argon2_hash_def takeWhile_until)
    with encoded same have "n1 = n2" by metis
    with differ show False by contradiction
  qed
qed

text \<open>The same secret and salt, hashed while the library draws \<open>n1\<close> and then \<open>n2\<close>.\<close>

theorem generatePassword_library_salt_witness:
  "CHR ''$'' \<notin> set ''n1'' \<and> CHR ''$'' \<notin> set ''n2'' \<and> ''n1'' \<noteq> ''n2''
   \<and> generatePassword (testEnv False) ''n1'' ''pw'' ''s1'' = ''n1$s1pw''
   \<and> generatePassword (testEnv False) ''n2'' ''pw'' ''s1'' = ''n2$s1pw''
   \<and> generatePassword (testEnv False) ''n1'' ''pw'' ''s1''
       \<noteq> generatePassword (testEnv False) ''n2'' ''pw'' ''s1''"
  using generatePassword_library_salt [of "''n1''" "''n2''" "testEnv False" "''pw''" "''s1''"]
  by (simp add: store_defs test_defs)

text \<open>
  Two invocations with the secret \<open>secret\<close> and the salt \<open>s2\<close> that do not produce the
  same hash value.
\<close>

theorem generatePassword_not_deterministic:
  "generatePassword (testEnv False) ''x'' ''secret'' ''s2''
     \<noteq> generatePassword (testEnv False) ''y'' ''secret'' ''s2''"
  by (simp add: store_defs test_defs)

section \<open>The expiry stored on a change request\<close>

text \<open>
  Claim C8.  The operations write \<open>Date.now() + ms(HOURS_TO_VERIFY)\<close> to
  \<open>verificationExpires\<close> and \<open>blockExpires\<close> of the account, and
  \<open>ms(HOURS_TO_VERIFY)\<close> alone to \<open>expires\<close> of the request (\<open>restPassword\<close> writes the
  sum to \<open>expires\<close> of its own request).  At time 1000 with a window of one hour:
  \<open>changeEmail\<close> stores 3601000 on the account and 3600000 on the request, and so does
  \<open>changePassword\<close>, run here with the \<open>userId\<close> clauses dropped so that it finds a
  vault.
\<close>

theorem change_request_expires:
  "changeEmail (testEnv False) 1000 (testDb [alice, bob] [] []) 2 ''b@x'' ''b2@x''
       ''ip'' ''ua'' ''fp'' ''tok''
     = (Observable ''verify'' ''tok'' ''b2@x'' ''VERIFY_EMAIL_CHANGE'',
        testDb [alice, bobPending] [bobRequest] [])
   \<and> cpd_expires bobRequest = 3600000
   \<and> cpd_verified bobRequest = False
   \<and> blockExpires bobPending = 1000 + 3600000
   \<and> verificationExpires bobPending = 1000 + 3600000
   \<and> changePassword (testEnv True) 1000 (testDb [alice, bob] [] []) 0 recoveringSalts
        fixedNonces 1 ''pw'' ''new'' ''ip'' ''ua'' ''fp'' ''s9'' ''n'' ''tkp''
     = Some (Observable ''verify'' ''tkp'' ''a@x'' ''VERIFY_PASSWORD_CHANGE'',
             \<lparr>users = [alice\<lparr>password := ''n$s9new'', isBlocked := True,
                              verificationExpires := 3601000, blockExpires := 3601000,
                              verification := ''tkp''\<rparr>, bob],
              vaults = [\<lparr>vault_user = 1, vault_salt = ''s9''\<rparr>,
                        \<lparr>vault_user = 2, vault_salt = ''s2''\<rparr>],
              changePrimaryData =
                [\<lparr>cpd_user = IdString 1, cpd_verification = ''tkp'', cpd_expires = 3600000,
                  cpd_ipOfRequest = ''ip'', cpd_browserOfRequest = ''ua'',
                  cpd_fingerprintOfRequest = ''fp'', cpd_dataType = Password,
                  cpd_verified = False\<rparr>],
              forgotPasswords = []\<rparr>, 0)"
proof -
  have email: "changeEmail (testEnv False) 1000 (testDb [alice, bob] [] []) 2 ''b@x'' ''b2@x''
       ''ip'' ''ua'' ''fp'' ''tok''
     = (Observable ''verify'' ''tok'' ''b2@x'' ''VERIFY_EMAIL_CHANGE'',
        testDb [alice, bobPending] [bobRequest] [])"
    by (simp add: changeEmail_def store_defs test_defs)
  have pw: "changePassword (testEnv True) 1000 (testDb [alice, bob] [] []) 0 recoveringSalts
        fixedNonces 1 ''pw'' ''new'' ''ip'' ''ua'' ''fp'' ''s9'' ''n'' ''tkp''
     = Some (Observable ''verify'' ''tkp'' ''a@x'' ''VERIFY_PASSWORD_CHANGE'',
             \<lparr>users = [alice\<lparr>password := ''n$s9new'', isBlocked := True,
                              verificationExpires := 3601000, blockExpires := 3601000,
                              verification := ''tkp''\<rparr>, bob],
              vaults = [\<lparr>vault_user = 1, vault_salt = ''s9''\<rparr>,
                        \<lparr>vault_user = 2, vault_salt = ''s2''\<rparr>],
              changePrimaryData =
                [\<lparr>cpd_user = IdString 1, cpd_verification = ''tkp'', cpd_expires = 3600000,
                  cpd_ipOfRequest = ''ip'', cpd_browserOfRequest = ''ua'',
                  cpd_fingerprintOfRequest = ''fp'', cpd_dataType = Password,
                  cpd_verified = False\<rparr>],
              forgotPasswords = []\<rparr>, 0)"
    apply (simp add: changePassword_def)
    apply (subst validatePasswordUniqueness.simps)
    apply (simp add: store_defs test_defs)
    done
  show ?thesis
    using email pw by (simp add: bobPending_def bobRequest_def bob_def)
qed

section \<open>Redeeming a change request\<close>

text \<open>
  Claim C4.  \<open>bob\<close> is blocked until his request, token \<open>tok\<close> and kind email, is
  verified; \<open>alice\<close> is locked out after five wrong secrets.  \<open>bob\<close> redeems with
  the right token and kind.  The existence check and the two updates of
  \<open>verifyPrimaryDataChange\<close> filter on \<open>userId\<close>.  When the clause stays in the filter,
  no request matches: the result is \<open>BAD_REQUEST\<close> and nothing changes.  When the clause
  is dropped, the update of the users has an empty filter and clears the block of the first
  account, \<open>alice\<close>; the request is marked verified and the view of \<open>bob\<close> is returned.
  Either way \<open>bob\<close> stays blocked.
\<close>

theorem verifyPrimaryDataChange_wrong_filter:
  "existsDoc (\<lambda>r. cpd_user r = ObjectId 2 \<and> cpd_verification r = ''tok'' \<and> cpd_dataType r = Email
                  \<and> cpd_verified r = False)
       (changePrimaryData (testDb [aliceLocked, bobPending] [bobRequest] []))
   \<and> verifyPrimaryDataChange (testEnv False) (testDb [aliceLocked, bobPending] [bobRequest] [])
        2 ''tok'' Email
      = (HttpStatus BAD_REQUEST, testDb [aliceLocked, bobPending] [bobRequest] [])
   \<and> verifyPrimaryDataChange (testEnv True) (testDb [aliceLocked, bobPending] [bobRequest] [])
        2 ''tok'' Email
      = (UserDataResponse (userData bobPending),
         testDb [alice, bobPending] [bobRequest\<lparr>cpd_verified := True\<rparr>] [])
   \<and> isBlocked bobPending \<and> isBlocked aliceLocked \<and> \<not> isBlocked alice"
  by (simp add: verifyPrimaryDataChange_def store_defs test_defs)

section \<open>The uniqueness check of passwords\<close>

text \<open>
  As long as every derived hash is stored, the check calls itself again with the counter
  it was given: nothing increments the counter, and the call never returns.
\<close>

lemma validatePasswordUniqueness_diverges:
  assumes budget: "MAXIMUM_PASSWORD_VALIDATIONS e = Some m" "counter \<le> m"
    and collide: "\<And>k. isExistingPassword s (generatePassword e (nonces k) pw (salts k))"
  shows "validatePasswordUniqueness e s salts nonces pw k counter = None"
proof (cases "validatePasswordUniqueness e s salts nonces pw k counter")
  case None
  then show ?thesis .
next
  case (Some y)
  have "\<not> (e = e \<and> s = s \<and> salts = salts \<and> nonces = nonces \<and> pw = pw \<and> counter = counter)"
  proof (rule validatePasswordUniqueness.raw_induct
      [where P = "\<lambda>e' s' salts' nonces' pw' k' c' y.
                    \<not> (e' = e \<and> s' = s \<and> salts' = salts \<and> nonces' = nonces \<and> pw' = pw
                       \<and> c' = counter)", OF _ Some])
    fix vpu e' s' salts' nonces' pw' k' c' y'
    assume IH: "\<And>s' salts' nonces' pw' k' c' b y'.
                  vpu s' salts' nonces' pw' k' c' b = Some y' \<Longrightarrow>
                  \<not> (s' = e \<and> salts' = s \<and> nonces' = salts \<and> pw' = nonces \<and> k' = pw
                     \<and> b = counter)"
      and step: "(let salt = salts' k';
                      saltedPassword = generatePassword e' (nonces' k') pw' salt
                  in if case MAXIMUM_PASSWORD_VALIDATIONS e' of None \<Rightarrow> False
                        | Some m \<Rightarrow> c' \<le> m
                     then if isExistingPassword s' saltedPassword
                          then Option.bind (vpu e' s' salts' nonces' pw' (Suc k') c')
                                 (\<lambda>(_, counter'). Some (None, counter'))
                          else Some (Some True, 0)
                     else Some (Some False, 0)) = Some y'"
    show "\<not> (e' = e \<and> s' = s \<and> salts' = salts \<and> nonces' = nonces \<and> pw' = pw \<and> c' = counter)"
    proof
      assume eq: "e' = e \<and> s' = s \<and> salts' = salts \<and> nonces' = nonces \<and> pw' = pw \<and> c' = counter"
      with step budget collide [of k']
      obtain z where "vpu e s salts nonces pw (Suc k') counter = Some z"
        by (auto simp: Let_def split: Option.bind_splits)
      with IH show False by blast
    qed
  qed
  then show ?thesis by simp
qed

text \<open>
  Claim C5.  The maximum is 3 and \<open>carol\<close> holds the hash derived with the salt \<open>q0\<close>.
  When only the first draw gives \<open>q0\<close>, the second call finds its hash absent and returns
  \<open>true\<close>, and the first call, which does not return the result of the second, ends with
  \<open>undefined\<close> (\<open>None\<close>): neither \<open>true\<close> nor \<open>false\<close>.  When every draw gives
  \<open>q0\<close>, the check does not return at all, the maximum notwithstanding.
\<close>

theorem validatePasswordUniqueness_no_budget:
  "validatePasswordUniqueness (testEnv False) (testDb [alice, carol] [] [])
       recoveringSalts fixedNonces ''pw'' 0 0 = Some (None, 0)
   \<and> validatePasswordUniqueness (testEnv False) (testDb [alice, carol] [] [])
       collidingSalts fixedNonces ''pw'' 0 0 = None"
proof
  show "validatePasswordUniqueness (testEnv False) (testDb [alice, carol] [] [])
       recoveringSalts fixedNonces ''pw'' 0 0 = Some (None, 0)"
    apply (subst validatePasswordUniqueness.simps)
    apply (subst validatePasswordUniqueness.simps)
    apply (simp add: store_defs test_defs)
    done
  show "validatePasswordUniqueness (testEnv False) (testDb [alice, carol] [] [])
       collidingSalts fixedNonces ''pw'' 0 0 = None"
    by (rule validatePasswordUniqueness_diverges [where m = 3])
       (simp_all add: store_defs test_defs)
qed

section \<open>Redeeming a password reset\<close>

text \<open>
  Claim C9, amended.  When the new password and its confirmation differ,
  \<open>verifyPasswordReset\<close> changes nothing in the store: no password, no salt.  The caller
  receives \<open>PASSWORDS_DOES_NOT_MATCH\<close> when a reset request with the token exists, and
  \<open>BAD_REQUEST\<close> when none does, since the token is looked up first.
\<close>

theorem verifyPasswordReset_mismatch:
  assumes "newPassword \<noteq> newPasswordVerification"
  shows "verifyPasswordReset e s email' verification' newPassword newPasswordVerification
             salt nonce
           = (if existsDoc (\<lambda>f. fp_verification f = verification') (forgotPasswords s)
              then RpcException PASSWORDS_DOES_NOT_MATCH else HttpStatus BAD_REQUEST, s)"
  using assms by (simp add: verifyPasswordReset_def)

theorem verifyPasswordReset_mismatch_witness:
  "''p1'' \<noteq> ''p2''
   \<and> verifyPasswordReset (testEnv False) (testDb [alice, bob] [] [aliceReset]) ''a@x'' ''rt1''
        ''p1'' ''p2'' ''s9'' ''n''
      = (RpcException PASSWORDS_DOES_NOT_MATCH, testDb [alice, bob] [] [aliceReset])"
  using verifyPasswordReset_mismatch [of "''p1''" "''p2''" "testEnv False"
          "testDb [alice, bob] [] [aliceReset]" "''a@x''" "''rt1''" "''s9''" "''n''"]
  by (simp add: store_defs test_defs)

text \<open>
  Two different passwords and a token that no reset request holds: the result is
  \<open>BAD_REQUEST\<close>, not \<open>PASSWORDS_DOES_NOT_MATCH\<close>.
\<close>

theorem verifyPasswordReset_unknown_token:
  "''p1'' \<noteq> ''p2''
   \<and> verifyPasswordReset (testEnv False) (testDb [alice, bob] [] []) ''a@x'' ''nosuch''
        ''p1'' ''p2'' ''s9'' ''n''
      = (HttpStatus BAD_REQUEST, testDb [alice, bob] [] [])"
  by (simp add: verifyPasswordReset_def store_defs test_defs)

text \<open>
  Claim C10.  \<open>restPassword\<close> issues the token \<open>verification'\<close> for the email
  \<open>issuedEmail\<close>.  \<open>verifyPasswordReset\<close>, called with this token and any email
  \<open>email'\<close> that some account \<open>u\<close> holds, returns \<open>OK\<close> and overwrites the password
  of \<open>u\<close> and the salt of its vault.  Nothing relates \<open>email'\<close> to \<open>issuedEmail\<close>: the
  request is looked up by the token alone and the account by \<open>email'\<close> alone.
\<close>

theorem reset_token_not_bound_to_email:
  assumes issued: "restPassword e now s ip userAgent fingerprint issuedEmail verification'
                     = (Observable ''reset-password'' verification' issuedEmail
                          ''RESET_PASSWORD'', s')"
    and account: "findOne (\<lambda>u. email u = email') (users s') = Some u"
  shows "verifyPasswordReset e s' email' verification' newPassword newPassword salt nonce
           = (HttpStatus OK,
              s'\<lparr>users := updateOne (\<lambda>x. uid x = uid u)
                             (\<lambda>x. x\<lparr>password := generatePassword e nonce newPassword salt\<rparr>)
                             (users s'),
                 vaults := updateOne (\<lambda>v. vault_user v = uid u)
                             (\<lambda>v. v\<lparr>vault_salt := salt\<rparr>) (vaults s')\<rparr>)"
proof -
  have "existsDoc (\<lambda>f. fp_verification f = verification') (forgotPasswords s')"
    using issued
    by (auto simp: restPassword_def Let_def existsDoc_def split: if_splits)
  then show ?thesis
    using account by (simp add: verifyPasswordReset_def Let_def)
qed

text \<open>
  A token issued for \<open>a@x\<close>, the email of \<open>alice\<close>, redeemed with the email \<open>b@x\<close>:
  the password of \<open>bob\<close> and the salt of his vault are overwritten.
\<close>

theorem reset_token_not_bound_to_email_witness:
  "restPassword (testEnv False) 1000 (testDb [alice, bob] [] []) ''ip'' ''ua'' ''fp'' ''a@x'' ''rt1''
     = (Observable ''reset-password'' ''rt1'' ''a@x'' ''RESET_PASSWORD'',
        testDb [alice, bob] [] [aliceReset])
   \<and> ''a@x'' \<noteq> ''b@x''
   \<and> verifyPasswordReset (testEnv False) (testDb [alice, bob] [] [aliceReset]) ''b@x'' ''rt1''
        ''new'' ''new'' ''s9'' ''n''
      = (HttpStatus OK,
         \<lparr>users = [alice, bob\<lparr>password := ''n$s9new''\<rparr>],
          vaults = [\<lparr>vault_user = 1, vault_salt = ''s1''\<rparr>, \<lparr>vault_user = 2, vault_salt = ''s9''\<rparr>],
          changePrimaryData = [], forgotPasswords = [aliceReset]\<rparr>)"
proof -
  have issued: "restPassword (testEnv False) 1000 (testDb [alice, bob] [] []) ''ip'' ''ua'' ''fp''
                  ''a@x'' ''rt1''
                = (Observable ''reset-password'' ''rt1'' ''a@x'' ''RESET_PASSWORD'',
                   testDb [alice, bob] [] [aliceReset])"
    by (simp add: restPassword_def store_defs test_defs)
  have account: "findOne (\<lambda>u. email u = ''b@x'') (users (testDb [alice, bob] [] [aliceReset]))
                   = Some bob"
    by (simp add: store_defs test_defs)
  show ?thesis
    using issued reset_token_not_bound_to_email [OF issued account, of "''new''" "''s9''" "''n''"]
    by (simp add: store_defs test_defs)
qed

end
